theory Spec2Isabelle
  imports Complex_Main "HOL-Library.Sublist"
begin

section \<open>Python library functions used by the sources\<close>

text \<open>
  A \<open>string\<close> stands for a Python \<open>str\<close> whose code points are below 256 (Latin-1),
  one \<open>char\<close> for each code point. On these strings \<open>str.lower\<close> works character by
  character: the letters \<open>A\<close> .. \<open>Z\<close> (65 .. 90) and the upper-case letters of Latin-1
  (192 .. 222 without the multiplication sign 215) are mapped to the code point 32 higher,
  every other character is kept.
\<close>

definition lower_char :: "char \<Rightarrow> char" where
  "lower_char c =
     (let n = (of_char c :: nat)
      in if (65 \<le> n \<and> n \<le> 90) \<or> (192 \<le> n \<and> n \<le> 222 \<and> n \<noteq> 215)
         then char_of (n + 32)
         else c)"

definition lower :: "string \<Rightarrow> string" where
  "lower s = map lower_char s"


text \<open>\<open>str(n)\<close> for an integer, and \<open>sep.join(xs)\<close>.\<close>

fun str_nat :: "nat \<Rightarrow> string" where
  "str_nat n =
     (if n < 10 then [char_of (48 + n)]
      else str_nat (n div 10) @ [char_of (48 + n mod 10)])"

definition str_int :: "int \<Rightarrow> string" where
  "str_int i = (if i < 0 then ''-'' @ str_nat (nat (- i)) else str_nat (nat i))"


text \<open>
  \<open>sorted(xs, key=f, reverse=True)\<close> and \<open>xs.sort(key=f, reverse=True)\<close>: Python
  sorts stably, and with \<open>reverse=True\<close> elements with equal keys keep their original
  order. \<open>sort_key\<close> is a stable insertion sort, so the descending sort is the ascending
  one on the reversed list, reversed.
\<close>

definition sort_key_reverse :: "('a \<Rightarrow> 'k::linorder) \<Rightarrow> 'a list \<Rightarrow> 'a list" where
  "sort_key_reverse f xs = rev (sort_key f (rev xs))"

text \<open>
  The slices \<open>xs[:n]\<close> and \<open>xs[n:]\<close> for an integer \<open>n\<close>: a negative \<open>n\<close> counts
  from the end of the list.
\<close>

definition slice_to :: "'a list \<Rightarrow> int \<Rightarrow> 'a list" where
  "slice_to xs n = (if n < 0 then take (nat (int (length xs) + n)) xs else take (nat n) xs)"

definition slice_from :: "'a list \<Rightarrow> int \<Rightarrow> 'a list" where
  "slice_from xs n = (if n < 0 then drop (nat (int (length xs) + n)) xs else drop (nat n) xs)"

text \<open>
  An exception, with the text \<open>str(e)\<close>. The sources catch every exception as
  \<open>Exception\<close> and use nothing but its text.
\<close>

datatype exception =
    OverflowError string
  | FileNotFoundError string
  | SameFileError string
  | OSError string

fun str_exception :: "exception \<Rightarrow> string" where
  "str_exception (OverflowError msg) = msg"
| "str_exception (FileNotFoundError msg) = msg"
| "str_exception (SameFileError msg) = msg"
| "str_exception (OSError msg) = msg"

text \<open>
  A \<open>datetime\<close> is the number of microseconds since \<open>datetime.min\<close>, the start of
  the year 1; \<open>datetime.max\<close> is the last microsecond of the year 9999. A
  \<open>timedelta\<close> is a number of microseconds.

  \<open>timedelta(seconds=s)\<close> for an integer \<open>s\<close> raises \<open>OverflowError\<close> when the
  number of days, \<open>s\<close> divided by 86400 and rounded down, is beyond 999999999 in
  magnitude; the text differs when the days do not fit a C \<open>int\<close> of 32 bits.
  \<open>datetime - timedelta\<close> raises \<open>OverflowError\<close> when the difference is outside
  \<open>datetime.min\<close> .. \<open>datetime.max\<close>.
\<close>

definition timedelta_seconds :: "int \<Rightarrow> exception + int" where
  "timedelta_seconds s =
     (let days = s div 86400
      in if days < - 2147483648 \<or> 2147483647 < days
         then Inl (OverflowError ''Python int too large to convert to C int'')
         else if days < - 999999999 \<or> 999999999 < days
         then Inl (OverflowError (''days='' @ str_int days @ ''; must have magnitude <= 999999999''))
         else Inr (1000000 * s))"

definition datetime_max :: int where
  "datetime_max = 315537897599999999"

definition datetime_sub :: "int \<Rightarrow> int \<Rightarrow> exception + int" where
  "datetime_sub t delta =
     (if t - delta < 0 \<or> datetime_max < t - delta
      then Inl (OverflowError ''date value out of range'')
      else Inr (t - delta))"


section \<open>File events (file\_monitor.py)\<close>

text \<open>
  The dataclass \<open>FileEvent\<close>. \<open>timestamp\<close> is a \<open>datetime\<close>;
  \<open>event_type\<close> is a Python string (\<open>modified\<close>, \<open>created\<close>, \<open>deleted\<close>,
  \<open>moved\<close>), \<open>file_size\<close> a Python integer.
\<close>

record FileEvent =
  timestamp :: int
  file_path :: string
  event_type :: string
  file_size :: int

section \<open>Threat detector (threat\_detector.py)\<close>

text \<open>
  The dataclass \<open>DetectionResult\<close>. \<open>affected_files\<close> is \<open>list(set(...))\<close> in the
  source, a list without duplicates in an order Python does not fix: it is a set here.
  The field \<open>timestamp\<close> of the source is \<open>detected_at\<close> (the name is taken by
  \<open>FileEvent\<close>).
\<close>

record DetectionResult =
  is_threat :: bool
  threat_score :: int
  affected_files :: "string set"
  detection_reason :: string
  detected_at :: int

record ThreatDetector =
  detection_threshold :: int
  time_window_seconds :: int
  suspicious_extensions :: "string list"

definition default_suspicious_extensions :: "string list" where
  "default_suspicious_extensions =
     [''.encrypted'', ''.locked'', ''.crypto'', ''.crypt'', ''.enc'', ''.vault'']"

text \<open>
  \<open>suspicious_extensions or [...]\<close>: \<open>None\<close> and the empty list both select the
  default list.
\<close>

definition configured_extensions :: "string list option \<Rightarrow> string list" where
  "configured_extensions exts =
     (case exts of
        None \<Rightarrow> default_suspicious_extensions
      | Some [] \<Rightarrow> default_suspicious_extensions
      | Some (e # es) \<Rightarrow> e # es)"

text \<open>\<open>ThreatDetector.__init__\<close>: the extensions are stored in lower case.\<close>

definition ThreatDetector_init :: "int \<Rightarrow> int \<Rightarrow> string list option \<Rightarrow> ThreatDetector" where
  "ThreatDetector_init thr win exts =
     \<lparr> detection_threshold = thr,
       time_window_seconds = win,
       suspicious_extensions = map lower (configured_extensions exts) \<rparr>"

text \<open>
  \<open>_filter_recent_events\<close>; \<open>now\<close> is the value of \<open>datetime.now()\<close> at the call.
  Its first line computes the cutoff time and can raise, \<open>cutoff_time\<close>; its second
  line returns the events newer than the cutoff, \<open>filter_recent_events\<close>.
\<close>

definition cutoff_time :: "ThreatDetector \<Rightarrow> int \<Rightarrow> exception + int" where
  "cutoff_time d now =
     (case timedelta_seconds (time_window_seconds d) of
        Inl e \<Rightarrow> Inl e
      | Inr delta \<Rightarrow> datetime_sub now delta)"

definition filter_recent_events :: "ThreatDetector \<Rightarrow> int \<Rightarrow> FileEvent list \<Rightarrow> FileEvent list" where
  "filter_recent_events d now events =
     (let cutoff_time = now - 1000000 * time_window_seconds d
      in filter (\<lambda>event. timestamp event > cutoff_time) events)"

definition is_modification :: "FileEvent \<Rightarrow> bool" where
  "is_modification event = (event_type event \<in> set [''modified'', ''created''])"

text \<open>\<open>_check_modification_rate\<close>\<close>

definition check_modification_rate :: "ThreatDetector \<Rightarrow> FileEvent list \<Rightarrow> int \<times> string list" where
  "check_modification_rate d events =
     (let modification_events = filter is_modification events;
          modification_count = int (length modification_events);
          affected = map file_path modification_events
      in if modification_count \<ge> detection_threshold d
         then (let excess = modification_count - detection_threshold d
               in (min (30 + excess * 5) 50, affected))
         else (0, []))"










text \<open>
  \<open>analyze_events\<close>. An exception raised in the body of the \<open>try\<close>, by the cutoff
  time or by a division of sizes, ends in the \<open>except\<close> branch, \<open>analysis_error\<close>.
\<close>

definition analysis_error :: "exception \<Rightarrow> int \<Rightarrow> DetectionResult" where
  "analysis_error e now =
     \<lparr> is_threat = False, threat_score = 0, affected_files = {},
       detection_reason = ''Analysis error: '' @ str_exception e, detected_at = now \<rparr>"


section \<open>The file system and the log\<close>

text \<open>
  The world outside the program. \<open>files\<close> holds the regular files with their contents,
  under their absolute paths; \<open>absolute\<close> is \<open>str(Path(p).absolute())\<close>, the absolute
  path of a path in the current directory, and every file operation reaches the file of
  a path through it. \<open>messages\<close> holds the lines written by \<open>print\<close> and through the
  logger.

  \<open>faults\<close> is a schedule of the failures the model does not see (a lock, a
  permission, a full disk): every file operation takes the next entry of the schedule,
  and when that is a fault it raises an \<open>OSError\<close> with the text of the fault; an empty
  schedule means no further fault. A copy that fails may leave a partial file behind,
  which the fault names. \<open>strerror\<close> is the text of the exceptions that the library
  raises for a missing file and for a copy of a file to itself.
\<close>

datatype log_level = PRINT | INFO | WARNING | ERROR

datatype os_failure = NoSuchFile string | SameFile string string

datatype fault = Fault string "string option"

record world =
  files :: "string \<rightharpoonup> string"
  absolute :: "string \<Rightarrow> string"
  strerror :: "os_failure \<Rightarrow> string"
  faults :: "fault option list"
  messages :: "(log_level \<times> string) list"

definition next_fault :: "world \<Rightarrow> fault option \<times> world" where
  "next_fault w = (case faults w of [] \<Rightarrow> (None, w) | f # fs \<Rightarrow> (f, w\<lparr>faults := fs\<rparr>))"

definition emit :: "log_level \<Rightarrow> string \<Rightarrow> world \<Rightarrow> world" where
  "emit lvl msg w = w\<lparr>messages := messages w @ [(lvl, msg)]\<rparr>"

text \<open>The file of a path exists.\<close>

definition path_exists :: "world \<Rightarrow> string \<Rightarrow> bool" where
  "path_exists w p = (files w (absolute w p) \<noteq> None)"

text \<open>\<open>Path.exists\<close> and \<open>Path.stat().st_size\<close>\<close>

definition exists_path :: "string \<Rightarrow> world \<Rightarrow> (exception + bool) \<times> world" where
  "exists_path p w =
     (case next_fault w of
        (Some (Fault msg partial), w1) \<Rightarrow> (Inl (OSError msg), w1)
      | (None, w1) \<Rightarrow> (Inr (path_exists w1 p), w1))"

definition stat_size :: "string \<Rightarrow> world \<Rightarrow> (exception + int) \<times> world" where
  "stat_size p w =
     (case next_fault w of
        (Some (Fault msg partial), w1) \<Rightarrow> (Inl (OSError msg), w1)
      | (None, w1) \<Rightarrow>
          (case files w1 (absolute w1 p) of
             None \<Rightarrow> (Inl (FileNotFoundError (strerror w1 (NoSuchFile p))), w1)
           | Some content \<Rightarrow> (Inr (int (length content)), w1)))"

text \<open>\<open>shutil.copy2\<close>, \<open>Path.unlink\<close>, \<open>Path.mkdir(parents=True, exist_ok=True)\<close>\<close>

definition copy2 :: "string \<Rightarrow> string \<Rightarrow> world \<Rightarrow> (exception + unit) \<times> world" where
  "copy2 src dst w =
     (case next_fault w of
        (Some (Fault msg partial), w1) \<Rightarrow>
          (Inl (OSError msg),
           (case partial of
              None \<Rightarrow> w1
            | Some content \<Rightarrow> w1\<lparr>files := (files w1)(absolute w1 dst \<mapsto> content)\<rparr>))
      | (None, w1) \<Rightarrow>
          (case files w1 (absolute w1 src) of
             None \<Rightarrow> (Inl (FileNotFoundError (strerror w1 (NoSuchFile src))), w1)
           | Some content \<Rightarrow>
               if absolute w1 src = absolute w1 dst
               then (Inl (SameFileError (strerror w1 (SameFile src dst))), w1)
               else (Inr (), w1\<lparr>files := (files w1)(absolute w1 dst \<mapsto> content)\<rparr>)))"

definition unlink :: "string \<Rightarrow> world \<Rightarrow> (exception + unit) \<times> world" where
  "unlink p w =
     (case next_fault w of
        (Some (Fault msg partial), w1) \<Rightarrow> (Inl (OSError msg), w1)
      | (None, w1) \<Rightarrow>
          (case files w1 (absolute w1 p) of
             None \<Rightarrow> (Inl (FileNotFoundError (strerror w1 (NoSuchFile p))), w1)
           | Some content \<Rightarrow> (Inr (), w1\<lparr>files := (files w1)(absolute w1 p := None)\<rparr>)))"

definition mkdir_parents :: "string \<Rightarrow> world \<Rightarrow> (exception + unit) \<times> world" where
  "mkdir_parents p w =
     (case next_fault w of
        (Some (Fault msg partial), w1) \<Rightarrow> (Inl (OSError msg), w1)
      | (None, w1) \<Rightarrow> (Inr (), w1))"

section \<open>Backup manager (backup\_manager.py)\<close>

text \<open>
  The dataclass \<open>BackupRecord\<close>; its fields \<open>timestamp\<close> and \<open>file_size\<close> are
  \<open>backup_timestamp\<close> and \<open>backup_file_size\<close> here (the names are taken by
  \<open>FileEvent\<close>).
\<close>

record BackupRecord =
  original_path :: string
  backup_path :: string
  backup_timestamp :: int
  backup_file_size :: int

text \<open>
  The state of a \<open>BackupManager\<close>. \<open>BackupManager_init\<close> is the state in which
  \<open>__init__\<close> leaves it when it returns.
\<close>

record BackupManager =
  backup_directory :: string
  retention_count :: int
  backup_records :: "string \<rightharpoonup> BackupRecord list"

definition BackupManager_init :: "string \<Rightarrow> int \<Rightarrow> BackupManager" where
  "BackupManager_init dir n =
     \<lparr> backup_directory = dir, retention_count = n, backup_records = Map.empty \<rparr>"

text \<open>
  The loop of \<open>_cleanup_old_backups\<close> over the excess records: a file that exists is
  unlinked and counted; an exception of \<open>exists\<close> or of \<open>unlink\<close> is printed and the
  loop goes on.
\<close>

fun remove_backups :: "BackupRecord list \<Rightarrow> world \<Rightarrow> nat \<times> world" where
  "remove_backups [] w = (0, w)"
| "remove_backups (record # rest) w =
     (let (n, w') =
            (case exists_path (backup_path record) w of
               (Inl e, w1) \<Rightarrow>
                 (0, emit PRINT (''Error removing old backup '' @ backup_path record
                                   @ '': '' @ str_exception e) w1)
             | (Inr False, w1) \<Rightarrow> (0, w1)
             | (Inr True, w1) \<Rightarrow>
                 (case unlink (backup_path record) w1 of
                    (Inr u, w2) \<Rightarrow> (1, w2)
                  | (Inl e, w2) \<Rightarrow>
                      (0, emit PRINT (''Error removing old backup '' @ backup_path record
                                        @ '': '' @ str_exception e) w2)));
          (m, w'') = remove_backups rest w'
      in (n + m, w''))"

text \<open>
  \<open>_cleanup_old_backups\<close>. \<open>records.sort\<close> sorts the list held by the dictionary in
  place, so the stored list is sorted also when nothing is removed.
\<close>

definition cleanup_old_backups_for :: "string \<Rightarrow> BackupManager \<Rightarrow> world \<Rightarrow> nat \<times> BackupManager \<times> world" where
  "cleanup_old_backups_for original_file bm w =
     (case backup_records bm original_file of
        None \<Rightarrow> (0, bm, w)
      | Some unsorted \<Rightarrow>
          (let records = sort_key_reverse backup_timestamp unsorted
           in if int (length records) \<le> retention_count bm
              then (0, bm\<lparr>backup_records := (backup_records bm)(original_file \<mapsto> records)\<rparr>, w)
              else
                (let excess_records = slice_from records (retention_count bm);
                     (removed_count, w') = remove_backups excess_records w
                 in (removed_count,
                     bm\<lparr>backup_records := (backup_records bm)
                          (original_file \<mapsto> slice_to records (retention_count bm))\<rparr>,
                     w'))))"

text \<open>
  The body of the \<open>try\<close> of \<open>create_backup\<close>. \<open>now\<close> is \<open>datetime.now()\<close>;
  \<open>backup_file\<close> stands for the path \<open>self.backup_directory / backup_filename\<close>,
  which the source builds from the backup directory, the stem and the suffix of the
  source path and the time stamp cut to milliseconds.
\<close>

definition create_backup_body ::
  "(string \<Rightarrow> string \<Rightarrow> int \<Rightarrow> string) \<Rightarrow> int \<Rightarrow> string \<Rightarrow> BackupManager \<Rightarrow> world
     \<Rightarrow> (exception + BackupRecord) \<times> BackupManager \<times> world" where
  "create_backup_body backup_file now source_path bm w =
     (case exists_path source_path w of
        (Inl e, w0) \<Rightarrow> (Inl e, bm, w0)
      | (Inr False, w0) \<Rightarrow>
          (Inl (FileNotFoundError (''Source file does not exist: '' @ source_path)), bm, w0)
      | (Inr True, w0) \<Rightarrow>
        (let new_path = backup_file (backup_directory bm) source_path now
         in case copy2 source_path new_path w0 of
              (Inl e, w1) \<Rightarrow> (Inl e, bm, w1)
            | (Inr u, w1) \<Rightarrow>
                (case stat_size source_path w1 of
                   (Inl e, w2) \<Rightarrow> (Inl e, bm, w2)
                 | (Inr source_size, w2) \<Rightarrow>
                     (let backup_record =
                            \<lparr> original_path = absolute w2 source_path,
                              backup_path = absolute w2 new_path,
                              backup_timestamp = now, backup_file_size = source_size \<rparr>;
                          original_key = absolute w2 source_path;
                          earlier = (case backup_records bm original_key of
                                       None \<Rightarrow> [] | Some records \<Rightarrow> records);
                          bm1 = bm\<lparr>backup_records := (backup_records bm)
                                     (original_key \<mapsto> earlier @ [backup_record])\<rparr>;
                          (removed, bm2, w3) = cleanup_old_backups_for original_key bm1 w2
                      in (Inr backup_record, bm2, w3)))))"

text \<open>\<open>create_backup\<close>: \<open>except Exception\<close> prints the error and returns \<open>None\<close>.\<close>

definition create_backup ::
  "(string \<Rightarrow> string \<Rightarrow> int \<Rightarrow> string) \<Rightarrow> int \<Rightarrow> string \<Rightarrow> BackupManager \<Rightarrow> world
     \<Rightarrow> BackupRecord option \<times> BackupManager \<times> world" where
  "create_backup backup_file now source_path bm w =
     (case create_backup_body backup_file now source_path bm w of
        (Inr backup_record, bm', w') \<Rightarrow> (Some backup_record, bm', w')
      | (Inl e, bm', w') \<Rightarrow>
          (None, bm',
           emit PRINT (''Error creating backup for '' @ source_path @ '': ''
                         @ str_exception e) w'))"

text \<open>\<open>list_backups\<close> and \<open>get_latest_backup\<close>\<close>

definition list_backups :: "BackupManager \<Rightarrow> world \<Rightarrow> string \<Rightarrow> BackupRecord list" where
  "list_backups bm w original_file =
     (case backup_records bm (absolute w original_file) of
        Some records \<Rightarrow> sort_key_reverse backup_timestamp records
      | None \<Rightarrow> [])"

definition get_latest_backup :: "BackupManager \<Rightarrow> world \<Rightarrow> string \<Rightarrow> BackupRecord option" where
  "get_latest_backup bm w original_file =
     (case list_backups bm w original_file of [] \<Rightarrow> None | b # backups \<Rightarrow> Some b)"

section \<open>Recovery engine (recovery\_engine.py)\<close>

text \<open>
  The dataclass \<open>RecoveryResult\<close>; its field \<open>file_path\<close> is \<open>restored_path\<close>
  here (the name is taken by \<open>FileEvent\<close>).
\<close>

record RecoveryResult =
  restored_path :: string
  success :: bool
  backup_used :: "string option"
  error_message :: "string option"
  verification_passed :: bool

record RecoveryStats =
  total_attempts :: nat
  successful_recoveries :: nat
  failed_recoveries :: nat
  files_recovered :: "string list"

record RecoveryEngine =
  backup_manager :: BackupManager
  recovery_stats :: RecoveryStats

definition RecoveryEngine_init :: "BackupManager \<Rightarrow> RecoveryEngine" where
  "RecoveryEngine_init bm =
     \<lparr> backup_manager = bm,
       recovery_stats = \<lparr> total_attempts = 0, successful_recoveries = 0,
                          failed_recoveries = 0, files_recovered = [] \<rparr> \<rparr>"

text \<open>
  \<open>_calculate_file_hash\<close> opens and reads the file; \<open>sha\<close> stands for the
  hexadecimal SHA-256 digest of the content.
\<close>

definition calculate_file_hash :: "(string \<Rightarrow> string) \<Rightarrow> string \<Rightarrow> world \<Rightarrow> (exception + string) \<times> world" where
  "calculate_file_hash sha p w =
     (case next_fault w of
        (Some (Fault msg partial), w1) \<Rightarrow> (Inl (OSError msg), w1)
      | (None, w1) \<Rightarrow>
          (case files w1 (absolute w1 p) of
             None \<Rightarrow> (Inl (FileNotFoundError (strerror w1 (NoSuchFile p))), w1)
           | Some content \<Rightarrow> (Inr (sha content), w1)))"

text \<open>\<open>_verify_file_hash\<close>: an error while hashing is logged and counts as a mismatch.\<close>

definition verify_file_hash :: "(string \<Rightarrow> string) \<Rightarrow> string \<Rightarrow> string \<Rightarrow> world \<Rightarrow> bool \<times> world" where
  "verify_file_hash sha file1_path file2_path w =
     (case calculate_file_hash sha file1_path w of
        (Inl e, w1) \<Rightarrow>
          (False, emit WARNING (''Error calculating file hashes: '' @ str_exception e) w1)
      | (Inr hash1, w1) \<Rightarrow>
          (case calculate_file_hash sha file2_path w1 of
             (Inl e, w2) \<Rightarrow>
               (False, emit WARNING (''Error calculating file hashes: '' @ str_exception e) w2)
           | (Inr hash2, w2) \<Rightarrow> (hash1 = hash2, w2)))"

text \<open>\<open>verify_restoration\<close>\<close>

definition verify_restoration :: "(string \<Rightarrow> string) \<Rightarrow> string \<Rightarrow> BackupRecord \<Rightarrow> world \<Rightarrow> bool \<times> world" where
  "verify_restoration sha target backup_record w =
     (case exists_path target w of
        (Inl e, w0) \<Rightarrow>
          (False, emit ERROR (''Error verifying restoration of '' @ target @ '': ''
                                @ str_exception e) w0)
      | (Inr False, w0) \<Rightarrow>
          (False, emit ERROR (''Restored file does not exist: '' @ target) w0)
      | (Inr True, w0) \<Rightarrow>
        (case stat_size target w0 of
           (Inl e, w1) \<Rightarrow>
             (False, emit ERROR (''Error verifying restoration of '' @ target @ '': ''
                                   @ str_exception e) w1)
         | (Inr actual_size, w1) \<Rightarrow>
             if actual_size \<noteq> backup_file_size backup_record
             then (False,
                   emit ERROR (''Size mismatch for '' @ target @ '': expected ''
                                 @ str_int (backup_file_size backup_record) @ '', got ''
                                 @ str_int actual_size) w1)
             else
               (case verify_file_hash sha target (backup_path backup_record) w1 of
                  (True, w2) \<Rightarrow>
                    (True, emit INFO (''File integrity verification passed for '' @ target) w2)
                | (False, w2) \<Rightarrow>
                    (True, emit WARNING (''Hash verification failed for '' @ target
                                           @ '', but size matches'') w2))))"

text \<open>\<open>_attempt_restore_from_backup\<close>\<close>

definition restore_error :: "string \<Rightarrow> BackupRecord \<Rightarrow> exception \<Rightarrow> RecoveryResult" where
  "restore_error target backup_record e =
     \<lparr> restored_path = target, success = False,
       backup_used = Some (backup_path backup_record),
       error_message = Some (''Error during restoration: '' @ str_exception e),
       verification_passed = False \<rparr>"

definition attempt_restore_from_backup ::
  "(string \<Rightarrow> string) \<Rightarrow> string \<Rightarrow> BackupRecord \<Rightarrow> bool \<Rightarrow> world \<Rightarrow> RecoveryResult \<times> world" where
  "attempt_restore_from_backup sha target backup_record verify_integrity w =
     (case exists_path (backup_path backup_record) w of
        (Inl e, w0) \<Rightarrow> (restore_error target backup_record e, w0)
      | (Inr False, w0) \<Rightarrow>
          (\<lparr> restored_path = target, success = False,
             backup_used = Some (backup_path backup_record),
             error_message = Some (''Backup file does not exist: '' @ backup_path backup_record),
             verification_passed = False \<rparr>, w0)
      | (Inr True, w0) \<Rightarrow>
        (case mkdir_parents target w0 of
           (Inl e, w1) \<Rightarrow> (restore_error target backup_record e, w1)
         | (Inr u, w1) \<Rightarrow>
             (case copy2 (backup_path backup_record) target w1 of
                (Inl e, w2) \<Rightarrow> (restore_error target backup_record e, w2)
              | (Inr u', w2) \<Rightarrow>
                  (let (passed, w3) =
                         (if verify_integrity
                          then verify_restoration sha target backup_record w2
                          else (True, w2))
                   in (\<lparr> restored_path = target, success = True,
                          backup_used = Some (backup_path backup_record),
                          error_message = None,
                          verification_passed = passed \<rparr>, w3)))))"

text \<open>
  The loop of \<open>_try_fallback_backups\<close> over the fallback records, left at the first
  successful attempt. The time stamp in the log line is printed as its integer.
\<close>

fun try_each_fallback ::
  "(string \<Rightarrow> string) \<Rightarrow> string \<Rightarrow> bool \<Rightarrow> BackupRecord list \<Rightarrow> world \<Rightarrow> RecoveryResult \<times> world" where
  "try_each_fallback sha target verify_integrity [] w =
     (\<lparr> restored_path = target, success = False, backup_used = None,
         error_message = Some ''All backup restoration attempts failed'',
         verification_passed = False \<rparr>, w)"
| "try_each_fallback sha target verify_integrity (backup_record # rest) w =
     (let w1 = emit INFO (''Trying fallback backup: '' @ backup_path backup_record) w;
          (attempt, w2) = attempt_restore_from_backup sha target backup_record verify_integrity w1
      in if success attempt
         then (attempt,
               emit INFO (''Fallback restoration successful using backup from ''
                            @ str_int (backup_timestamp backup_record)) w2)
         else try_each_fallback sha target verify_integrity rest w2)"

text \<open>\<open>_try_fallback_backups\<close>\<close>

definition try_fallback_backups ::
  "(string \<Rightarrow> string) \<Rightarrow> BackupManager \<Rightarrow> string \<Rightarrow> bool \<Rightarrow> world \<Rightarrow> RecoveryResult \<times> world" where
  "try_fallback_backups sha bm target verify_integrity w =
     (let all_backups = list_backups bm w target;
          fallback_backups = (if length all_backups > 1 then tl all_backups else [])
      in if fallback_backups = []
         then (\<lparr> restored_path = target, success = False, backup_used = None,
                  error_message = Some ''No fallback backups available'',
                  verification_passed = False \<rparr>, w)
         else try_each_fallback sha target verify_integrity fallback_backups w)"

text \<open>
  \<open>restore_file\<close>. Nothing in the body of its \<open>try\<close> raises: the file operations
  are inside \<open>_attempt_restore_from_backup\<close>, which catches every exception itself.
\<close>

definition restore_file ::
  "(string \<Rightarrow> string) \<Rightarrow> string \<Rightarrow> bool \<Rightarrow> RecoveryEngine \<Rightarrow> world
     \<Rightarrow> RecoveryResult \<times> RecoveryEngine \<times> world" where
  "restore_file sha target verify_integrity re w =
     (let stats = (recovery_stats re)\<lparr>total_attempts := total_attempts (recovery_stats re) + 1\<rparr>
      in case get_latest_backup (backup_manager re) w target of
           None \<Rightarrow>
             (let error_msg = ''No backup found for file: '' @ target
              in (\<lparr> restored_path = target, success = False, backup_used = None,
                     error_message = Some error_msg, verification_passed = False \<rparr>,
                  re\<lparr>recovery_stats := stats\<lparr>failed_recoveries := failed_recoveries stats + 1\<rparr>\<rparr>,
                  emit ERROR error_msg w))
         | Some latest_backup \<Rightarrow>
             (let (first_attempt, w1) =
                    attempt_restore_from_backup sha target latest_backup verify_integrity w;
                  (final, w2) =
                    (if \<not> success first_attempt
                     then try_fallback_backups sha (backup_manager re) target verify_integrity
                            (emit WARNING (''Latest backup restoration failed for '' @ target
                                             @ '', trying previous versions'') w1)
                     else (first_attempt, w1))
              in if success final
                 then (final,
                       re\<lparr>recovery_stats := stats
                            \<lparr>successful_recoveries := successful_recoveries stats + 1,
                             files_recovered := files_recovered stats @ [target]\<rparr>\<rparr>,
                       emit INFO (''Successfully restored '' @ target @ '' from backup ''
                                    @ (case backup_used final of Some b \<Rightarrow> b | None \<Rightarrow> ''None'')) w2)
                 else (final,
                       re\<lparr>recovery_stats := stats\<lparr>failed_recoveries := failed_recoveries stats + 1\<rparr>\<rparr>,
                       emit ERROR (''Failed to restore '' @ target @ '': ''
                                     @ (case error_message final of Some m \<Rightarrow> m | None \<Rightarrow> ''None'')) w2)))"

section \<open>Notions of the specification\<close>

text \<open>
  The specification counts events, speaks of events inside the analysis window, of
  events whose kind is created or modified, and of a path that ends with an extension
  when the case of letters is ignored.
\<close>

definition count_where :: "('a \<Rightarrow> bool) \<Rightarrow> 'a list \<Rightarrow> nat" where
  "count_where P xs = card {i. i < length xs \<and> P (xs ! i)}"

definition in_window :: "ThreatDetector \<Rightarrow> int \<Rightarrow> FileEvent \<Rightarrow> bool" where
  "in_window d now e = (timestamp e > now - 1000000 * time_window_seconds d)"

definition created_or_modified :: "FileEvent \<Rightarrow> bool" where
  "created_or_modified e = (event_type e = ''created'' \<or> event_type e = ''modified'')"






text \<open>The records the store holds for one original path (none when the key is absent).\<close>

definition records_for :: "BackupManager \<Rightarrow> string \<Rightarrow> BackupRecord list" where
  "records_for bm p = (case backup_records bm p of None \<Rightarrow> [] | Some records \<Rightarrow> records)"

text \<open>A modify event, for the examples.\<close>

definition modified_event :: "int \<Rightarrow> string \<Rightarrow> int \<Rightarrow> FileEvent" where
  "modified_event t p s = \<lparr> timestamp = t, file_path = p, event_type = ''modified'', file_size = s \<rparr>"


text \<open>
  A caller that makes one backup of the same file at each of the given times, one call of
  \<open>create_backup\<close> after the other, and stops at the first call that fails. The flag
  tells whether every call succeeded.
\<close>

fun create_backups ::
  "(string \<Rightarrow> string \<Rightarrow> int \<Rightarrow> string) \<Rightarrow> int list \<Rightarrow> string \<Rightarrow> BackupManager \<Rightarrow> world
     \<Rightarrow> bool \<times> BackupManager \<times> world" where
  "create_backups backup_file [] p bm w = (True, bm, w)"
| "create_backups backup_file (now # later) p bm w =
     (case create_backup backup_file now p bm w of
        (None, bm', w') \<Rightarrow> (False, bm', w')
      | (Some r, bm', w') \<Rightarrow> create_backups backup_file later p bm' w')"


section \<open>The rate sub-score\<close>

lemma count_where_filter: "count_where P xs = length (filter P xs)"
  by (simp add: count_where_def length_filter_conv_card)

lemma is_modification_iff: "is_modification e = created_or_modified e"
  by (auto simp: is_modification_def created_or_modified_def)

lemma filter_recent_eq: "filter_recent_events d now events = filter (in_window d now) events"
  by (simp add: filter_recent_events_def in_window_def[abs_def])

lemma rate_formula:
  "fst (check_modification_rate d events) =
     (let n = int (count_where created_or_modified events)
      in if n \<ge> detection_threshold d then min (30 + 5 * (n - detection_threshold d)) 50 else 0)"
  by (simp add: check_modification_rate_def Let_def count_where_filter is_modification_iff[abs_def] mult.commute)

text \<open>
  C2. The rate sub-score of a batch, as \<open>analyze_events\<close> computes it on the events
  inside the window: with \<open>n\<close> the number of events of the batch that are inside the
  window and whose kind is created or modified, it is
  \<open>min (30 + 5 * (n - detection_threshold)) 50\<close> when \<open>n\<close> reaches the threshold and
  \<open>0\<close> otherwise. With a threshold of 5 and 7 such events it is 40.
\<close>

theorem rate_subscore:
  "fst (check_modification_rate d (filter_recent_events d now events)) =
     (let n = int (count_where (\<lambda>e. in_window d now e \<and> created_or_modified e) events)
      in if n \<ge> detection_threshold d then min (30 + 5 * (n - detection_threshold d)) 50 else 0)
   \<and> (detection_threshold d = 5 \<and>
        count_where (\<lambda>e. in_window d now e \<and> created_or_modified e) events = 7 \<longrightarrow>
        fst (check_modification_rate d (filter_recent_events d now events)) = 40)"
proof -
  have n: "count_where created_or_modified (filter (in_window d now) events) =
      count_where (\<lambda>e. in_window d now e \<and> created_or_modified e) events"
    by (simp add: count_where_filter conj_commute)
  show ?thesis
    unfolding rate_formula filter_recent_eq n by (simp add: Let_def)
qed

text \<open>
  The example of the specification: threshold 5, seven modify events on distinct paths
  inside the window (and one event outside of it).
\<close>

theorem rate_subscore_witness:
  "detection_threshold (ThreatDetector_init 5 10 None) = 5
   \<and> count_where (\<lambda>e. in_window (ThreatDetector_init 5 10 None) 20000000 e \<and> created_or_modified e)
        [modified_event 15000000 ''/d/a'' 1, modified_event 15100000 ''/d/b'' 1,
         modified_event 15200000 ''/d/c'' 1, modified_event 15300000 ''/d/d'' 1,
         modified_event 15400000 ''/d/e'' 1, modified_event 15500000 ''/d/f'' 1,
         modified_event 15600000 ''/d/g'' 1, modified_event 5000000 ''/d/h'' 1] = 7
   \<and> fst (check_modification_rate (ThreatDetector_init 5 10 None)
        (filter_recent_events (ThreatDetector_init 5 10 None) 20000000
        [modified_event 15000000 ''/d/a'' 1, modified_event 15100000 ''/d/b'' 1,
         modified_event 15200000 ''/d/c'' 1, modified_event 15300000 ''/d/d'' 1,
         modified_event 15400000 ''/d/e'' 1, modified_event 15500000 ''/d/f'' 1,
         modified_event 15600000 ''/d/g'' 1, modified_event 5000000 ''/d/h'' 1])) = 40"
proof -
  let ?d = "ThreatDetector_init 5 10 None"
  let ?evs = "[modified_event 15000000 ''/d/a'' 1, modified_event 15100000 ''/d/b'' 1,
         modified_event 15200000 ''/d/c'' 1, modified_event 15300000 ''/d/d'' 1,
         modified_event 15400000 ''/d/e'' 1, modified_event 15500000 ''/d/f'' 1,
         modified_event 15600000 ''/d/g'' 1, modified_event 5000000 ''/d/h'' 1]"
  have h: "detection_threshold ?d = 5" by (simp add: ThreatDetector_init_def)
  have "length (filter (\<lambda>e. in_window ?d 20000000 e \<and> created_or_modified e) ?evs) = 7"
    by code_simp
  then have n: "count_where (\<lambda>e. in_window ?d 20000000 e \<and> created_or_modified e) ?evs = 7"
    by (simp only: count_where_filter)
  from rate_subscore[of ?d 20000000 ?evs] h n show ?thesis by blast
qed

section \<open>The extension sub-score\<close>






section \<open>The growth sub-score\<close>























section \<open>The total score\<close>





lemma analysis_error_score:
  "threat_score (analysis_error e now) = 0 \<and> \<not> is_threat (analysis_error e now)"
  by (simp add: analysis_error_def)






end
